theory Spec2Isabelle
  imports Main
begin

section \<open>Strings and the Unicode tables the form relies on\<close>

text \<open>
  A Python \<open>str\<close> is a sequence of Unicode code points, so a string is a list of code
  points and \<open>length\<close> counts what Python's \<open>len\<close> counts.
\<close>

type_synonym codepoint = nat
type_synonym ustring = "codepoint list"

definition in_ranges :: "(nat \<times> nat) list \<Rightarrow> codepoint \<Rightarrow> bool" where
  "in_ranges rs c = list_ex (\<lambda>(lo, hi). lo \<le> c \<and> c \<le> hi) rs"

text \<open>
  The code points on which \<open>str.isdecimal\<close> holds (general category Nd), as inclusive
  ranges, in the Unicode 14.0.0 database of CPython 3.11. Within each range the decimal
  value of a code point is its offset from the start of the range modulo 10.
\<close>

definition decimal_ranges :: "(nat \<times> nat) list" where
  "decimal_ranges =
    [(0x30, 0x39), (0x660, 0x669), (0x6F0, 0x6F9), (0x7C0, 0x7C9), (0x966, 0x96F),
     (0x9E6, 0x9EF), (0xA66, 0xA6F), (0xAE6, 0xAEF), (0xB66, 0xB6F), (0xBE6, 0xBEF),
     (0xC66, 0xC6F), (0xCE6, 0xCEF), (0xD66, 0xD6F), (0xDE6, 0xDEF), (0xE50, 0xE59),
     (0xED0, 0xED9), (0xF20, 0xF29), (0x1040, 0x1049), (0x1090, 0x1099), (0x17E0, 0x17E9),
     (0x1810, 0x1819), (0x1946, 0x194F), (0x19D0, 0x19D9), (0x1A80, 0x1A89),
     (0x1A90, 0x1A99), (0x1B50, 0x1B59), (0x1BB0, 0x1BB9), (0x1C40, 0x1C49),
     (0x1C50, 0x1C59), (0xA620, 0xA629), (0xA8D0, 0xA8D9), (0xA900, 0xA909),
     (0xA9D0, 0xA9D9), (0xA9F0, 0xA9F9), (0xAA50, 0xAA59), (0xABF0, 0xABF9),
     (0xFF10, 0xFF19), (0x104A0, 0x104A9), (0x10D30, 0x10D39), (0x11066, 0x1106F),
     (0x110F0, 0x110F9), (0x11136, 0x1113F), (0x111D0, 0x111D9), (0x112F0, 0x112F9),
     (0x11450, 0x11459), (0x114D0, 0x114D9), (0x11650, 0x11659), (0x116C0, 0x116C9),
     (0x11730, 0x11739), (0x118E0, 0x118E9), (0x11950, 0x11959), (0x11C50, 0x11C59),
     (0x11D50, 0x11D59), (0x11DA0, 0x11DA9), (0x16A60, 0x16A69), (0x16AC0, 0x16AC9),
     (0x16B50, 0x16B59), (0x1D7CE, 0x1D7FF), (0x1E140, 0x1E149), (0x1E2F0, 0x1E2F9),
     (0x1E950, 0x1E959), (0x1FBF0, 0x1FBF9)]"

text \<open>
  The code points on which \<open>str.isdigit\<close> holds and \<open>str.isdecimal\<close> does not
  (Numeric_Type=Digit: superscripts, subscripts, circled and parenthesised digits, ...).
\<close>

definition digit_only_ranges :: "(nat \<times> nat) list" where
  "digit_only_ranges =
    [(0xB2, 0xB3), (0xB9, 0xB9), (0x1369, 0x1371), (0x19DA, 0x19DA), (0x2070, 0x2070),
     (0x2074, 0x2079), (0x2080, 0x2089), (0x2460, 0x2468), (0x2474, 0x247C),
     (0x2488, 0x2490), (0x24EA, 0x24EA), (0x24F5, 0x24FD), (0x24FF, 0x24FF),
     (0x2776, 0x277E), (0x2780, 0x2788), (0x278A, 0x2792), (0x10A40, 0x10A43),
     (0x10E60, 0x10E68), (0x11052, 0x1105A), (0x1F100, 0x1F10A)]"

text \<open>The code points on which \<open>str.isspace\<close> holds; \<open>str.strip()\<close> removes these.\<close>

definition space_ranges :: "(nat \<times> nat) list" where
  "space_ranges =
    [(0x9, 0xD), (0x1C, 0x20), (0x85, 0x85), (0xA0, 0xA0), (0x1680, 0x1680),
     (0x2000, 0x200A), (0x2028, 0x2029), (0x202F, 0x202F), (0x205F, 0x205F),
     (0x3000, 0x3000)]"

definition is_decimal :: "codepoint \<Rightarrow> bool" where
  "is_decimal c = in_ranges decimal_ranges c"

definition is_digit_only :: "codepoint \<Rightarrow> bool" where
  "is_digit_only c = in_ranges digit_only_ranges c"

definition is_space :: "codepoint \<Rightarrow> bool" where
  "is_space c = in_ranges space_ranges c"

definition is_ascii_digit :: "codepoint \<Rightarrow> bool" where
  "is_ascii_digit c = (0x30 \<le> c \<and> c \<le> 0x39)"

text \<open>
  \<open>s.isdigit()\<close>: true when \<open>s\<close> has at least one character and every character has
  Numeric_Type Digit or Decimal.
\<close>

definition py_isdigit :: "ustring \<Rightarrow> bool" where
  "py_isdigit s = (s \<noteq> [] \<and> list_all (\<lambda>c. is_decimal c \<or> is_digit_only c) s)"

text \<open>\<open>s.strip()\<close>: leading and trailing whitespace removed.\<close>

definition py_strip :: "ustring \<Rightarrow> ustring" where
  "py_strip s = rev (dropWhile is_space (rev (dropWhile is_space s)))"

text \<open>
  \<open>unicodedata.normalize("NFKC", ch)\<close> for a full-width digit \<open>ch\<close> (U+FF10 to U+FF19,
  the only arguments \<open>normalize_digits\<close> passes): the one-character string holding the
  ASCII digit of the same value.
\<close>

definition nfkc_fullwidth_digit :: "codepoint \<Rightarrow> ustring" where
  "nfkc_fullwidth_digit ch = [ch - 0xFEE0]"

section \<open>Digit normalizer\<close>

text \<open>
  \<^verbatim>\<open>
  def normalize_digits(s: str) -> str:
      return "".join(
          unicodedata.normalize("NFKC", ch) if "\uFF10" <= ch <= "\uFF19" else ch
          for ch in s)
  \<close>
  (the two literals are the full-width digits zero and nine, written here by their code
  points). The comparison of one-character strings is the comparison of their code points.
\<close>

definition normalize_digits :: "ustring \<Rightarrow> ustring" where
  "normalize_digits s =
     concat (map (\<lambda>ch. if 0xFF10 \<le> ch \<and> ch \<le> 0xFF19 then nfkc_fullwidth_digit ch else [ch]) s)"

section \<open>Entry validator: the quantity\<close>

text \<open>
  \<^verbatim>\<open>
  quantity_normalized = normalize_digits(quantity_input) if quantity_input else ""
  is_quantity_valid = quantity_normalized.isdigit() and quantity_normalized != ""
  \<close>
\<close>

definition quantity_normalized :: "ustring \<Rightarrow> ustring" where
  "quantity_normalized quantity_input =
     (if quantity_input \<noteq> [] then normalize_digits quantity_input else [])"

definition is_quantity_valid :: "ustring \<Rightarrow> bool" where
  "is_quantity_valid quantity_input =
     (py_isdigit (quantity_normalized quantity_input) \<and> quantity_normalized quantity_input \<noteq> [])"

text \<open>
  \<open>int(s)\<close> on a string for which \<open>s.isdigit()\<close> holds, the only strings the action
  handlers pass to it. Such a string has no sign, whitespace or underscore, so \<open>int\<close>
  reads it as a base-10 numeral of decimal digits (any script) and raises \<open>ValueError\<close> at
  a character that is not a decimal digit. \<open>max_str_digits\<close> is the interpreter's limit
  on the length of a numeral (\<open>sys.get_int_max_str_digits()\<close>, 4300 by default, 0 for no
  limit); it is checked only above 640 digits, and a longer numeral raises \<open>ValueError\<close>.
\<close>

datatype py_error = ValueError

definition decimal_value :: "codepoint \<Rightarrow> nat option" where
  "decimal_value c =
     (case find (\<lambda>(lo, hi). lo \<le> c \<and> c \<le> hi) decimal_ranges of
        Some (lo, hi) \<Rightarrow> Some ((c - lo) mod 10)
      | None \<Rightarrow> None)"

fun parse_decimal :: "int \<Rightarrow> ustring \<Rightarrow> int option" where
  "parse_decimal acc [] = Some acc"
| "parse_decimal acc (c # cs) =
     (case decimal_value c of
        None \<Rightarrow> None
      | Some d \<Rightarrow> parse_decimal (10 * acc + int d) cs)"

definition py_int :: "nat \<Rightarrow> ustring \<Rightarrow> py_error + int" where
  "py_int max_str_digits s =
     (if s = [] then Inl ValueError
      else if 0 < max_str_digits \<and> 640 < length s \<and> max_str_digits < length s
        then Inl ValueError
      else (case parse_decimal 0 s of None \<Rightarrow> Inl ValueError | Some n \<Rightarrow> Inr n))"

section \<open>Master data and the cascading selector\<close>

text \<open>
  The five tables read by \<open>load_master_data\<close>, each a list of rows in file order. The
  uniforms and sizes tables carry the identifier of their parent row (the columns
  \<open>pattern_id\<close> of uniforms.csv and \<open>uniform_id\<close> of size.csv).
\<close>

record applicant_row =
  ap_id :: int
  ap_name :: ustring

record location_row =
  location_id :: int
  location_name :: ustring

record pattern_row =
  pattern_id :: int
  pattern_name :: ustring

record uniform_row =
  uniform_id :: int
  uniform_name :: ustring
  uniform_pattern_id :: int

record size_row =
  size_id :: int
  size_name :: ustring
  size_uniform_id :: int

record master_data =
  applicants :: "applicant_row list"
  locations :: "location_row list"
  patterns :: "pattern_row list"
  sizes :: "size_row list"
  uniforms :: "uniform_row list"

text \<open>
  The first option of every dropdown: three hyphens, a space, the two characters U+9078
  and U+629E, a space and three hyphens, written \<open>"--- \u9078\u629E ---"\<close> below.
\<close>

definition placeholder :: ustring where
  "placeholder = [0x2D, 0x2D, 0x2D, 0x20, 0x9078, 0x629E, 0x20, 0x2D, 0x2D, 0x2D]"

text \<open>
  \<^verbatim>\<open>
  def create_dropdown_options(df, id_col, name_col, include_blank=True):
      if df.empty:
          return ["--- \u9078\u629E ---"] if include_blank else []
      options = df[[id_col, name_col]].values.tolist()
      names = [name for _, name in options]
      if include_blank:
          names = ["--- \u9078\u629E ---"] + names
      return names
  \<close>
  The columns are passed as the functions that read them from a row.
\<close>

definition create_dropdown_options ::
  "'r list \<Rightarrow> ('r \<Rightarrow> 'i) \<Rightarrow> ('r \<Rightarrow> ustring) \<Rightarrow> bool \<Rightarrow> ustring list" where
  "create_dropdown_options df id_col name_col include_blank =
     (if df = [] then (if include_blank then [placeholder] else [])
      else
        let options = map (\<lambda>r. (id_col r, name_col r)) df;
            names = map snd options
        in if include_blank then placeholder # names else names)"

text \<open>
  \<^verbatim>\<open>
  def get_selected_id(df, id_col, name_col, selected_name):
      if selected_name == "--- \u9078\u629E ---" or selected_name is None:
          return None
      matching_rows = df[df[name_col] == selected_name]
      if not matching_rows.empty:
          return matching_rows.iloc[0][id_col]
      return None
  \<close>
\<close>

definition get_selected_id ::
  "'r list \<Rightarrow> ('r \<Rightarrow> 'i) \<Rightarrow> ('r \<Rightarrow> ustring) \<Rightarrow> ustring option \<Rightarrow> 'i option" where
  "get_selected_id df id_col name_col selected_name =
     (if selected_name = Some placeholder \<or> selected_name = None then None
      else
        let matching_rows = filter (\<lambda>r. Some (name_col r) = selected_name) df
        in if matching_rows \<noteq> [] then Some (id_col (hd matching_rows)) else None)"

section \<open>One run of the script\<close>

text \<open>
  Streamlit runs the script from top to bottom at every interaction. The values the
  widgets return in one run are its input: the five \<open>st.selectbox\<close> values, the two
  \<open>st.text_input\<close> values and the three \<open>st.button\<close> values.
\<close>

record form_input =
  selected_applicant :: ustring
  selected_location :: ustring
  selected_pattern :: ustring
  selected_uniform :: ustring
  selected_size :: ustring
  quantity_input :: ustring
  user_name_input :: ustring
  add_entry :: bool
  finish_entry :: bool
  reset_button :: bool

text \<open>The dictionary built by the two action handlers.\<close>

record entry =
  entry_applicant_id :: "int option"
  entry_applicant :: ustring
  entry_location_id :: "int option"
  entry_location :: ustring
  entry_pattern_id :: "int option"
  entry_pattern :: ustring
  entry_uniform_id :: "int option"
  entry_uniform :: ustring
  entry_size_id :: "int option"
  entry_size :: ustring
  entry_quantity :: int
  entry_user_name :: ustring

text \<open>\<open>st.session_state\<close>, with the values the script gives a new session.\<close>

record session_state =
  entries :: "entry list"
  show_success :: bool
  reset_trigger :: nat
  current_applicant :: "ustring option"

definition initial_state :: session_state where
  "initial_state =
     \<lparr>entries = [], show_success = False, reset_trigger = 0, current_applicant = None\<rparr>"

definition applicant_options :: "master_data \<Rightarrow> ustring list" where
  "applicant_options m = create_dropdown_options (applicants m) ap_id ap_name True"

definition location_options :: "master_data \<Rightarrow> ustring list" where
  "location_options m = create_dropdown_options (locations m) location_id location_name True"

definition pattern_options :: "master_data \<Rightarrow> ustring list" where
  "pattern_options m = create_dropdown_options (patterns m) pattern_id pattern_name True"

text \<open>
  \<^verbatim>\<open>
  selected_pattern_id = get_selected_id(patterns, "pattern_id", "pattern_name", selected_pattern)
  if selected_pattern_id is not None:
      uniform_filtered = uniforms[uniforms['pattern_id'] == selected_pattern_id]
  else:
      uniform_filtered = pd.DataFrame(columns=["uniform_id", "uniform_name"])
  uniform_options = create_dropdown_options(uniform_filtered, "uniform_id", "uniform_name")
  \<close>
  and the same one level down for the sizes of the selected uniform.
\<close>

definition selected_pattern_id :: "master_data \<Rightarrow> form_input \<Rightarrow> int option" where
  "selected_pattern_id m w =
     get_selected_id (patterns m) pattern_id pattern_name (Some (selected_pattern w))"

definition uniform_filtered :: "master_data \<Rightarrow> form_input \<Rightarrow> uniform_row list" where
  "uniform_filtered m w =
     (case selected_pattern_id m w of
        Some pid \<Rightarrow> filter (\<lambda>u. uniform_pattern_id u = pid) (uniforms m)
      | None \<Rightarrow> [])"

definition uniform_options :: "master_data \<Rightarrow> form_input \<Rightarrow> ustring list" where
  "uniform_options m w = create_dropdown_options (uniform_filtered m w) uniform_id uniform_name True"

definition selected_uniform_id :: "master_data \<Rightarrow> form_input \<Rightarrow> int option" where
  "selected_uniform_id m w =
     get_selected_id (uniform_filtered m w) uniform_id uniform_name (Some (selected_uniform w))"

definition size_filtered :: "master_data \<Rightarrow> form_input \<Rightarrow> size_row list" where
  "size_filtered m w =
     (case selected_uniform_id m w of
        Some uid \<Rightarrow> filter (\<lambda>z. size_uniform_id z = uid) (sizes m)
      | None \<Rightarrow> [])"

definition size_options :: "master_data \<Rightarrow> form_input \<Rightarrow> ustring list" where
  "size_options m w = create_dropdown_options (size_filtered m w) size_id size_name True"

text \<open>
  \<^verbatim>\<open>
  all_fields_filled = (
      selected_applicant != "--- \u9078\u629E ---" and selected_location != "--- \u9078\u629E ---" and
      selected_pattern != "--- \u9078\u629E ---" and selected_uniform != "--- \u9078\u629E ---" and
      selected_size != "--- \u9078\u629E ---" and is_quantity_valid and
      user_name_input.strip() != "")
  \<close>
\<close>

definition all_fields_filled :: "form_input \<Rightarrow> bool" where
  "all_fields_filled w =
     (selected_applicant w \<noteq> placeholder \<and>
      selected_location w \<noteq> placeholder \<and>
      selected_pattern w \<noteq> placeholder \<and>
      selected_uniform w \<noteq> placeholder \<and>
      selected_size w \<noteq> placeholder \<and>
      is_quantity_valid (quantity_input w) \<and>
      py_strip (user_name_input w) \<noteq> [])"

text \<open>
  The dictionary literal of the handlers (the same text in both). Its values are computed
  in order; the only one that can raise is \<open>int(quantity_normalized)\<close>.
\<close>

definition build_entry :: "nat \<Rightarrow> master_data \<Rightarrow> form_input \<Rightarrow> py_error + entry" where
  "build_entry max_str_digits m w =
     (case py_int max_str_digits (quantity_normalized (quantity_input w)) of
        Inl err \<Rightarrow> Inl err
      | Inr quantity \<Rightarrow>
          Inr \<lparr>entry_applicant_id =
                 get_selected_id (applicants m) ap_id ap_name (Some (selected_applicant w)),
               entry_applicant = selected_applicant w,
               entry_location_id =
                 get_selected_id (locations m) location_id location_name
                   (Some (selected_location w)),
               entry_location = selected_location w,
               entry_pattern_id =
                 get_selected_id (patterns m) pattern_id pattern_name (Some (selected_pattern w)),
               entry_pattern = selected_pattern w,
               entry_uniform_id =
                 get_selected_id (uniform_filtered m w) uniform_id uniform_name
                   (Some (selected_uniform w)),
               entry_uniform = selected_uniform w,
               entry_size_id =
                 get_selected_id (size_filtered m w) size_id size_name (Some (selected_size w)),
               entry_size = selected_size w,
               entry_quantity = quantity,
               entry_user_name = py_strip (user_name_input w)\<rparr>)"

text \<open>
  The part of the script that changes the session state, in source order: the handler of
  "add and continue", the handler of "finish and send", and the reset button, which exists
  only inside the review display (\<open>show_success and entries\<close>). Each ends in
  \<open>st.rerun()\<close>, which stops the run, so at most one of them acts. An exception leaves
  the run with \<open>Inl\<close>; it is raised before the handler has touched the session state.
\<close>

definition script_run ::
  "nat \<Rightarrow> master_data \<Rightarrow> session_state \<Rightarrow> form_input \<Rightarrow> py_error + session_state" where
  "script_run max_str_digits m st w =
     (if add_entry w \<and> all_fields_filled w then
        (case build_entry max_str_digits m w of
           Inl err \<Rightarrow> Inl err
         | Inr e \<Rightarrow>
             Inr (st\<lparr>entries := entries st @ [e],
                     current_applicant := Some (selected_applicant w),
                     reset_trigger := reset_trigger st + 1\<rparr>))
      else if finish_entry w \<and> all_fields_filled w then
        (case build_entry max_str_digits m w of
           Inl err \<Rightarrow> Inl err
         | Inr e \<Rightarrow>
             Inr (st\<lparr>entries := entries st @ [e],
                     show_success := True,
                     current_applicant := None,
                     reset_trigger := reset_trigger st + 1\<rparr>))
      else if show_success st \<and> entries st \<noteq> [] \<and> reset_button w then
        Inr (st\<lparr>entries := [],
                show_success := False,
                current_applicant := None,
                reset_trigger := reset_trigger st + 1\<rparr>)
      else Inr st)"

text \<open>
  The session states a session can be in: the initial one, and the state after any run
  that ended without an exception (a run that raised has left the state as it was).
\<close>

inductive reachable :: "nat \<Rightarrow> master_data \<Rightarrow> session_state \<Rightarrow> bool"
  for max_str_digits :: nat and m :: master_data where
  reachable_initial: "reachable max_str_digits m initial_state"
| reachable_run:
    "reachable max_str_digits m st \<Longrightarrow> script_run max_str_digits m st w = Inr st'
     \<Longrightarrow> reachable max_str_digits m st'"

text \<open>
  \<open>st.selectbox\<close> returns one of the options it was given: in every run each selection
  is a member of the option list computed for it in that run.
\<close>

definition selections_offered :: "master_data \<Rightarrow> form_input \<Rightarrow> bool" where
  "selections_offered m w =
     (selected_applicant w \<in> set (applicant_options m) \<and>
      selected_location w \<in> set (location_options m) \<and>
      selected_pattern w \<in> set (pattern_options m) \<and>
      selected_uniform w \<in> set (uniform_options m w) \<and>
      selected_size w \<in> set (size_options m w))"

text \<open>
  Referential integrity of an entry against the master data: its uniform is a row of the
  uniforms table under the entry's pattern, its size a row of the sizes table under the
  entry's uniform.
\<close>

definition referential_integrity :: "master_data \<Rightarrow> entry \<Rightarrow> bool" where
  "referential_integrity m e =
     (list_ex (\<lambda>u. Some (uniform_id u) = entry_uniform_id e \<and>
                    Some (uniform_pattern_id u) = entry_pattern_id e) (uniforms m) \<and>
      list_ex (\<lambda>z. Some (size_id z) = entry_size_id e \<and>
                    Some (size_uniform_id z) = entry_uniform_id e) (sizes m))"

subsection \<open>Example data\<close>

text \<open>
  A small master data set and a filled form: applicant "T", location "HQ", pattern "S"
  with uniform "Sh" in size "M", quantity "2" typed with the full-width digit, user "Su".
\<close>

definition example_master :: master_data where
  "example_master =
     \<lparr>applicants = [\<lparr>ap_id = 1, ap_name = [0x54]\<rparr>],
      locations = [\<lparr>location_id = 10, location_name = [0x48, 0x51]\<rparr>],
      patterns = [\<lparr>pattern_id = 100, pattern_name = [0x53]\<rparr>,
                  \<lparr>pattern_id = 101, pattern_name = [0x57]\<rparr>],
      sizes = [\<lparr>size_id = 7, size_name = [0x4D], size_uniform_id = 21\<rparr>,
               \<lparr>size_id = 8, size_name = [0x4D], size_uniform_id = 20\<rparr>],
      uniforms = [\<lparr>uniform_id = 20, uniform_name = [0x53, 0x68], uniform_pattern_id = 100\<rparr>,
                  \<lparr>uniform_id = 21, uniform_name = [0x53, 0x68], uniform_pattern_id = 101\<rparr>]\<rparr>"

definition example_form :: form_input where
  "example_form =
     \<lparr>selected_applicant = [0x54], selected_location = [0x48, 0x51],
      selected_pattern = [0x53], selected_uniform = [0x53, 0x68], selected_size = [0x4D],
      quantity_input = [0xFF12], user_name_input = [0x20, 0x53, 0x75, 0x20],
      add_entry = False, finish_entry = False, reset_button = False\<rparr>"

section \<open>Properties of the digit normalizer\<close>

lemma normalize_digits_map:
  "normalize_digits s = map (\<lambda>ch. if 0xFF10 \<le> ch \<and> ch \<le> 0xFF19 then ch - 0xFEE0 else ch) s"
  unfolding normalize_digits_def nfkc_fullwidth_digit_def
  by (induction s) simp_all

lemma normalize_digits_Nil_iff: "normalize_digits s = [] \<longleftrightarrow> s = []"
  by (simp add: normalize_digits_map)

lemma quantity_normalized_eq: "quantity_normalized q = normalize_digits q"
  by (simp add: quantity_normalized_def normalize_digits_map)

lemma fullwidth_offset: "0xFF10 \<le> ch \<Longrightarrow> ch - 0xFEE0 = 0x30 + (ch - 0xFF10)" for ch :: nat
  by linarith

text \<open>
  C9. Digit normalization is a total function that returns a string of the same length;
  at every position a full-width digit (U+FF10 to U+FF19) has become the ASCII digit of
  the same value (U+0030 plus the digit's value) and any other character is unchanged.
\<close>

theorem normalize_digits_pointwise:
  "length (normalize_digits s) = length s \<and>
   (\<forall>i < length s. normalize_digits s ! i =
      (if 0xFF10 \<le> s ! i \<and> s ! i \<le> 0xFF19 then 0x30 + (s ! i - 0xFF10) else s ! i))"
proof -
  have "normalize_digits s ! i =
      (if 0xFF10 \<le> s ! i \<and> s ! i \<le> 0xFF19 then 0x30 + (s ! i - 0xFF10) else s ! i)"
    if "i < length s" for i
  proof (cases "0xFF10 \<le> s ! i \<and> s ! i \<le> 0xFF19")
    case True
    then have "normalize_digits s ! i = s ! i - 0xFEE0"
      using that by (simp add: normalize_digits_map)
    also have "\<dots> = 0x30 + (s ! i - 0xFF10)"
      using True fullwidth_offset by blast
    finally show ?thesis using True by auto
  next
    case False
    then have "normalize_digits s ! i = s ! i"
      using that by (auto simp add: normalize_digits_map)
    then show ?thesis using False by auto
  qed
  moreover have "length (normalize_digits s) = length s"
    by (simp only: normalize_digits_map length_map)
  ultimately show ?thesis by blast
qed

theorem normalize_digits_pointwise_witness:
  "length (normalize_digits [0xFF11, 0xFF12, 0x61, 0xFF13]) = 4 \<and>
   normalize_digits [0xFF11, 0xFF12, 0x61, 0xFF13] ! 1 = 0x32 \<and>
   normalize_digits [0xFF11, 0xFF12, 0x61, 0xFF13] ! 2 = 0x61"
  using normalize_digits_pointwise [of "[0xFF11, 0xFF12, 0x61, 0xFF13]"]
  by (simp add: normalize_digits_map)

end
